theory Spec2Isabelle
  imports Complex_Main "HOL-Library.Sublist"
begin

section \<open>Python values, exceptions and string formatting\<close>

text \<open>
  The framework is Python. Integers are unbounded (\<open>int\<close>), strings are \<open>string\<close>,
  a raised exception is the \<open>Inl\<close> branch of a sum. Every exception listed here is a
  subclass of Python's \<open>Exception\<close>, so an \<open>except Exception\<close> clause handles each of
  them. Wall-clock readings (\<open>datetime.now()\<close>, \<open>time.time()\<close>) are inputs of the
  functions that read them: \<open>today\<close> is the ISO date string
  \<open>datetime.now().date().isoformat()\<close>, \<open>now\<close> the value of \<open>time.time()\<close>.
  Python's floats (clock readings, probabilities, the risk tolerance) are real numbers
  here: the code modelled subtracts and compares clock readings and hands the others
  on as they are. A \<open>datetime\<close> is the instant it denotes.
\<close>

datatype exn = AttributeError | KeyError | TypeError | ValueError | IndexError | RuntimeError

type_synonym datetime = real

type_synonym bytes = "nat list"

text \<open>\<open>str(n)\<close> for a Python integer: decimal digits, a leading minus sign when negative.\<close>

definition digit_char :: "nat \<Rightarrow> char" where
  "digit_char d = ''0123456789'' ! d"

fun str_nat :: "nat \<Rightarrow> string" where
  "str_nat n = (if n < 10 then [digit_char n] else str_nat (n div 10) @ [digit_char (n mod 10)])"

definition str_int :: "int \<Rightarrow> string" where
  "str_int i = (if i < 0 then CHR ''-'' # str_nat (nat (- i)) else str_nat (nat i))"

text \<open>Reading a digit string back, used to show that \<open>str\<close> is injective.\<close>

definition digit_val :: "char \<Rightarrow> nat" where
  "digit_val c = length (takeWhile (\<lambda>x. x \<noteq> c) ''0123456789'')"

definition nat_of_str :: "string \<Rightarrow> nat" where
  "nat_of_str s = foldl (\<lambda>a c. 10 * a + digit_val c) 0 s"

section \<open>Agents: \<open>src/framework/agents/base_agent.py\<close>\<close>

text \<open>
  \<open>AgentProfile\<close> and \<open>ActionConfig\<close> live in \<open>profile.py\<close>, which is not among the
  sources. The agent only reads the fields and calls the two methods below, so the
  profile is a parameter: its methods are arbitrary functions that return a value or
  raise.
\<close>

record ActionConfig =
  probability :: real

record AgentProfile =
  max_daily_actions :: int
  risk_tolerance :: real
  preset_addresses :: "string list"
  action_configs :: "(string \<times> ActionConfig) list"
  profile_get_action_config :: "string \<Rightarrow> exn + ActionConfig option"
  profile_can_perform_action :: "string \<Rightarrow> int \<Rightarrow> int \<Rightarrow> exn + bool"

record BalanceUpdate =
  contract :: string
  account :: string
  balance :: int
  timestamp :: datetime
  block :: int

text \<open>
  The attributes of \<open>BaseAgent\<close> that the modelled methods touch. \<open>accounts\<close> and
  \<open>action_configs\<close> keep their insertion order (their keys are listed and iterated);
  the other dictionaries are maps. \<open>balances_ERC20\<close> and \<open>balances_history\<close> are the
  entries \<open>state['balances-ERC20']\<close> and \<open>state['balances-history']\<close>.
\<close>

record BaseAgent =
  agent_id :: string
  profile :: AgentProfile
  accounts :: "(string \<times> bytes) list"
  balances_ERC20 :: "string \<rightharpoonup> (string \<rightharpoonup> int)"
  balances_history :: "BalanceUpdate list"
  last_actions :: "string \<rightharpoonup> int"
  daily_action_counts :: "string \<rightharpoonup> int"
  action_history :: "(string \<times> int) list"

text \<open>\<open>BaseAgent.__init__\<close>: the preset addresses become accounts with empty keys.\<close>

definition BaseAgent_init :: "string \<Rightarrow> AgentProfile \<Rightarrow> BaseAgent" where
  "BaseAgent_init aid p =
     \<lparr> agent_id = aid, profile = p,
       accounts = map (\<lambda>address. (address, [])) (rev (remdups (rev (preset_addresses p)))),
       balances_ERC20 = Map.empty, balances_history = [],
       last_actions = Map.empty, daily_action_counts = Map.empty, action_history = [] \<rparr>"

text \<open>\<open>d.get(k, default)\<close>.\<close>

definition dict_get :: "('k \<rightharpoonup> 'v) \<Rightarrow> 'k \<Rightarrow> 'v \<Rightarrow> 'v" where
  "dict_get d k dflt = (case d k of None \<Rightarrow> dflt | Some v \<Rightarrow> v)"

text \<open>\<open>record_action\<close>: only a successful action is recorded; the date is read then.\<close>

definition record_action :: "BaseAgent \<Rightarrow> string \<Rightarrow> string \<Rightarrow> int \<Rightarrow> bool \<Rightarrow> BaseAgent" where
  "record_action a today action_name block_number success =
     (if success then
        a\<lparr> last_actions := (last_actions a)(action_name \<mapsto> block_number),
           daily_action_counts :=
             (daily_action_counts a)(today \<mapsto> dict_get (daily_action_counts a) today 0 + 1),
           action_history := action_history a @ [(action_name, block_number)] \<rparr>
      else a)"

text \<open>
  The random source. \<open>rnd_choices population weights\<close> is the draw
  \<open>random.choices(population, weights=weights)[0]\<close>, which raises when the weights
  cannot be used; \<open>rnd_choice xs\<close> is \<open>random.choice(xs)\<close> on a non-empty list.
\<close>

record rng =
  rnd_choices :: "string list \<Rightarrow> real list \<Rightarrow> exn + string"
  rnd_choice :: "string list \<Rightarrow> string"

datatype param_val = StrParam string | NumParam real

type_synonym params = "(string \<times> param_val) list"

definition get_accounts :: "BaseAgent \<Rightarrow> string list" where
  "get_accounts a = map fst (accounts a)"

definition get_random_account :: "rng \<Rightarrow> BaseAgent \<Rightarrow> exn + (string \<times> bytes) option" where
  "get_random_account g a =
     (if accounts a = [] then Inr None
      else let address = rnd_choice g (get_accounts a) in
        (case map_of (accounts a) address of
           None \<Rightarrow> Inl KeyError
         | Some private_key \<Rightarrow> Inr (Some (address, private_key))))"

definition get_base_params :: "BaseAgent \<Rightarrow> string \<Rightarrow> string \<Rightarrow> exn + params" where
  "get_base_params a action_name acting_address =
     (case profile_get_action_config (profile a) action_name of
        Inl e \<Rightarrow> Inl e
      | Inr None \<Rightarrow> Inr []
      | Inr (Some action) \<Rightarrow>
          Inr [(''sender'', StrParam acting_address),
               (''risk_tolerance'', NumParam (risk_tolerance (profile a)))])"

text \<open>
  The loop of \<open>select_action\<close> over \<open>action_configs.keys()\<close>: every action the
  profile allows at this block, with its probability. No \<open>try\<close> surrounds it, so an
  exception of the profile leaves the loop.
\<close>

fun available_actions :: "BaseAgent \<Rightarrow> int \<Rightarrow> string list \<Rightarrow> exn + (string \<times> real) list" where
  "available_actions a current_block [] = Inr []"
| "available_actions a current_block (action_name # rest) =
     (let last_block = (if action_name \<notin> dom (last_actions a) then 0
                        else dict_get (last_actions a) action_name 0) in
      case profile_can_perform_action (profile a) action_name current_block last_block of
        Inl e \<Rightarrow> Inl e
      | Inr ok \<Rightarrow>
          if ok then
            (case map_of (action_configs (profile a)) action_name of
               None \<Rightarrow> Inl KeyError
             | Some cfg \<Rightarrow>
                 (case available_actions a current_block rest of
                    Inl e \<Rightarrow> Inl e
                  | Inr others \<Rightarrow> Inr ((action_name, probability cfg) # others)))
          else available_actions a current_block rest)"

text \<open>
  \<open>select_action\<close>. The result \<open>(None, [], [])\<close> is Python's triple of \<open>None\<close>, the
  empty string and the empty dictionary: no action.
\<close>

definition select_action ::
  "rng \<Rightarrow> BaseAgent \<Rightarrow> string \<Rightarrow> int \<Rightarrow> 'ns \<Rightarrow> exn + (string option \<times> string \<times> params)" where
  "select_action g a today current_block network_state =
     (if dict_get (daily_action_counts a) today 0 \<ge> max_daily_actions (profile a)
      then Inr (None, [], [])
      else
        (case available_actions a current_block (map fst (action_configs (profile a))) of
           Inl e \<Rightarrow> Inl e
         | Inr available \<Rightarrow>
             if available = [] then Inr (None, [], [])
             else
               (case rnd_choices g (map fst available) (map snd available) of
                  Inl e \<Rightarrow> Inl e
                | Inr action_name \<Rightarrow>
                    (case get_random_account g a of
                       Inl e \<Rightarrow> Inl e
                     | Inr None \<Rightarrow> Inr (None, [], [])
                     | Inr (Some (acting_address, private_key)) \<Rightarrow>
                         (case get_base_params a action_name acting_address of
                            Inl e \<Rightarrow> Inl e
                          | Inr ps \<Rightarrow> Inr (Some action_name, acting_address, ps))))))"

text \<open>
  \<open>can_perform_action\<close> of the agent. \<open>can_perform_action_try\<close> is the body of its
  \<open>try\<close> block; the \<open>except Exception\<close> clause logs and returns \<open>False\<close>.
\<close>

definition can_perform_action_try :: "BaseAgent \<Rightarrow> string \<Rightarrow> int \<Rightarrow> 'ns \<Rightarrow> exn + bool" where
  "can_perform_action_try a action_name current_block network_state =
     (case profile_get_action_config (profile a) action_name of
        Inl e \<Rightarrow> Inl e
      | Inr None \<Rightarrow> Inr False
      | Inr (Some action) \<Rightarrow>
          (let last_action = dict_get (last_actions a) action_name 0 in
           case profile_can_perform_action (profile a) action_name current_block last_action of
             Inl e \<Rightarrow> Inl e
           | Inr ok \<Rightarrow> if \<not> ok then Inr False else Inr True))"

definition can_perform_action :: "BaseAgent \<Rightarrow> string \<Rightarrow> int \<Rightarrow> 'ns \<Rightarrow> exn + bool" where
  "can_perform_action a action_name current_block network_state =
     (case can_perform_action_try a action_name current_block network_state of
        Inl e \<Rightarrow> Inr False
      | Inr b \<Rightarrow> Inr b)"

text \<open>
  A sequence of \<open>record_action\<close> calls, each with the date read at that call:
  \<open>(today, action_name, block_number, success)\<close>.
\<close>

type_synonym action_call = "string \<times> string \<times> int \<times> bool"

fun record_actions :: "BaseAgent \<Rightarrow> action_call list \<Rightarrow> BaseAgent" where
  "record_actions a [] = a"
| "record_actions a ((today, action_name, block_number, success) # calls) =
     record_actions (record_action a today action_name block_number success) calls"

text \<open>
  The calling discipline under which the quota holds: a successful action is recorded
  only while the count of its day is below the quota, which is the condition
  \<open>select_action\<close> tests before it offers any action.
\<close>

fun within_quota :: "BaseAgent \<Rightarrow> action_call list \<Rightarrow> bool" where
  "within_quota a [] = True"
| "within_quota a ((today, action_name, block_number, success) # calls) =
     ((if success
       then dict_get (daily_action_counts a) today 0 < max_daily_actions (profile a)
       else True)
      \<and> within_quota (record_action a today action_name block_number success) calls)"

subsection \<open>The balance ledger\<close>

text \<open>
  \<open>update_balance\<close>: nothing happens for an account the agent does not control.
  Otherwise the inner dictionary of the account is created when it is missing, and only
  then the balance is tested.
\<close>

definition update_balance ::
  "BaseAgent \<Rightarrow> string \<Rightarrow> string \<Rightarrow> int \<Rightarrow> datetime \<Rightarrow> int \<Rightarrow> BaseAgent" where
  "update_balance a acct con bal ts blk =
     (if acct \<notin> set (get_accounts a) then a
      else
        let erc20 = (if acct \<notin> dom (balances_ERC20 a)
                     then (balances_ERC20 a)(acct \<mapsto> Map.empty)
                     else balances_ERC20 a);
            held = dict_get erc20 acct Map.empty
        in if bal > 0 \<or> con \<in> dom held then
             a\<lparr> balances_ERC20 := erc20(acct \<mapsto> held(con \<mapsto> bal)),
                balances_history := balances_history a @
                  [\<lparr> contract = con, account = acct, balance = bal,
                     timestamp = ts, block = blk \<rparr>] \<rparr>
           else a\<lparr> balances_ERC20 := erc20 \<rparr>)"

definition get_last_balance :: "BaseAgent \<Rightarrow> string \<Rightarrow> string \<Rightarrow> int option" where
  "get_last_balance a acct con = dict_get (balances_ERC20 a) acct Map.empty con"

text \<open>
  \<open>get_balance_history\<close>: an argument left out is \<open>None\<close>. \<open>if account:\<close> tests the
  truth value of the argument, which is false for \<open>None\<close> and for the empty string.
\<close>

definition str_truthy :: "string option \<Rightarrow> bool" where
  "str_truthy s = (case s of None \<Rightarrow> False | Some t \<Rightarrow> t \<noteq> [])"

definition get_balance_history ::
  "BaseAgent \<Rightarrow> string option \<Rightarrow> string option \<Rightarrow> BalanceUpdate list" where
  "get_balance_history a acct con =
     (let history = balances_history a;
          history = (if str_truthy acct then filter (\<lambda>h. Some (account h) = acct) history
                     else history);
          history = (if str_truthy con then filter (\<lambda>h. Some (contract h) = con) history
                     else history)
      in history)"

section \<open>The execution context: \<open>src/framework/core/context.py\<close>\<close>

text \<open>
  The values of a cache or of an identifier dictionary are typed \<open>Any\<close>. The
  methods modelled tell apart what is false as a condition, what supports floor
  division, what can be sliced and what has a \<open>timestamp\<close>; \<open>pyval\<close> has a kind of
  value for each: \<open>None\<close>, integers, strings, and instances of the dataclass
  \<open>CacheEntry(value, timestamp)\<close>.
\<close>

datatype pyval =
    PNone
  | PInt int
  | PStr string
  | CacheEntry (entry_value: pyval) (entry_timestamp: real)

text \<open>The truth value \<open>not x\<close> negates. A dataclass instance is always true.\<close>

fun truthy :: "pyval \<Rightarrow> bool" where
  "truthy PNone = False"
| "truthy (PInt i) = (i \<noteq> 0)"
| "truthy (PStr s) = (s \<noteq> [])"
| "truthy (CacheEntry v ts) = True"

type_synonym cache = "string \<rightharpoonup> pyval"

text \<open>
  \<open>SimulationContext\<close>. The dictionary \<open>_cache\<close> is handed to the constructor and shared by
  reference between the contexts of an iteration, so it is a store of its own, passed
  to each method and returned by it. Of the attributes, the methods modelled here read
  \<open>iteration\<close> and \<open>cache_ttl\<close>. An attribute that was never assigned is \<open>None\<close> here,
  and reading it raises \<open>AttributeError\<close>. The constructor assigns \<open>agent\<close>,
  \<open>agent_manager\<close>, \<open>clients\<close>, \<open>chain\<close>, \<open>network_state\<close>, \<open>simulation\<close>,
  \<open>iteration\<close> and \<open>_cache\<close>, and nothing else.
\<close>

record SimulationContext =
  iteration :: int
  cache_ttl :: "real option"

definition SimulationContext_init :: "int \<Rightarrow> SimulationContext" where
  "SimulationContext_init it = \<lparr> iteration = it, cache_ttl = None \<rparr>"

text \<open>
  \<open>get_cache_key\<close>. \<open>identifiers\<close> defaults to \<open>None\<close>; \<open>not identifiers\<close> also holds
  for the empty dictionary. Floor division and slicing raise \<open>TypeError\<close> on a value
  that does not support them.
\<close>

definition get_cache_key :: "string \<Rightarrow> (string \<rightharpoonup> pyval) option \<Rightarrow> exn + string" where
  "get_cache_key base_key identifiers =
     (case identifiers of
        None \<Rightarrow> Inr base_key
      | Some ids \<Rightarrow>
          if dom ids = {} then Inr base_key
          else
            (case ids ''block'' of
               Some b \<Rightarrow>
                 (case b of
                    PInt n \<Rightarrow> Inr (base_key @ ''_block_'' @ str_int (n div 10))
                  | _ \<Rightarrow> Inl TypeError)
             | None \<Rightarrow>
                 (case ids ''agent_id'' of
                    Some i \<Rightarrow>
                      (case i of
                         PStr s \<Rightarrow> Inr (base_key @ ''_agent_'' @ take 8 s)
                       | _ \<Rightarrow> Inl TypeError)
                  | None \<Rightarrow> Inr base_key)))"

text \<open>
  \<open>get_cached\<close> at clock reading \<open>now\<close>. The operands of the comparison are evaluated
  left to right: \<open>entry.timestamp\<close> first, then \<open>self.cache_ttl\<close>.
\<close>

definition get_cached ::
  "SimulationContext \<Rightarrow> real \<Rightarrow> cache \<Rightarrow> string \<Rightarrow> (exn + pyval) \<times> cache" where
  "get_cached ctx now c key =
     (case c key of
        None \<Rightarrow> (Inr PNone, c)
      | Some entry \<Rightarrow>
          if \<not> truthy entry then (Inr PNone, c)
          else
            (case entry of
               CacheEntry v ts \<Rightarrow>
                 (case cache_ttl ctx of
                    None \<Rightarrow> (Inl AttributeError, c)
                  | Some ttl \<Rightarrow>
                      if now - ts > ttl then (Inr PNone, c(key := None))
                      else (Inr v, c))
             | _ \<Rightarrow> (Inl AttributeError, c)))"

text \<open>
  \<open>get_or_cache\<close>. The generator is a closure with effects: it takes the cache and the
  rest of the world \<open>'w\<close> and returns a value or raises, with both as it left them.
\<close>

definition iteration_key :: "string \<Rightarrow> int \<Rightarrow> string" where
  "iteration_key key it = key @ ''_iter_'' @ str_int it"

definition get_or_cache ::
  "SimulationContext \<Rightarrow> string \<Rightarrow> (cache \<Rightarrow> 'w \<Rightarrow> (exn + pyval) \<times> cache \<times> 'w)
     \<Rightarrow> cache \<times> 'w \<Rightarrow> (exn + pyval) \<times> cache \<times> 'w" where
  "get_or_cache ctx key generator_func s =
     (case s of (c, w) \<Rightarrow>
        (case c (iteration_key key (iteration ctx)) of
           Some hit \<Rightarrow> (Inr hit, c, w)
         | None \<Rightarrow>
             (case generator_func c w of
                (Inl e, c', w') \<Rightarrow> (Inl e, c', w')
              | (Inr result, c', w') \<Rightarrow>
                  (Inr result, c'(iteration_key key (iteration ctx) \<mapsto> result), w'))))"

section \<open>The iteration driver: \<open>src/framework/simulation/base.py\<close>\<close>

text \<open>
  The summary \<open>evolve_network\<close> returns is a dictionary; the driver reads three of its
  keys. A field is \<open>None\<close> when the key is absent.
\<close>

record summary =
  total_actions :: "int option"
  successful_actions :: "int option"
  action_counts :: "(string \<times> int) list option"

text \<open>
  The collaborators of \<open>BaseSimulation\<close> (collector, builder, evolver) and its abstract
  methods are outside the sources. Each is a function on the world \<open>'w\<close> they act on,
  returning a value or raising. \<open>build_large_network\<close> stands for the call in
  \<open>_build_initial_network\<close> together with the evaluation of its arguments.
\<close>

record 'w BaseSimulation =
  network_size :: int
  iterations :: int
  blocks_per_iteration :: int
  block_time :: int
  has_collector :: bool
  simulation_start_time :: datetime
  create_simulation_metadata :: "'w \<Rightarrow> (exn + (string \<rightharpoonup> pyval)) \<times> 'w"
  get_simulation_description :: "'w \<Rightarrow> (exn + string) \<times> 'w"
  start_simulation_run :: "(string \<rightharpoonup> pyval) \<Rightarrow> string \<Rightarrow> 'w \<Rightarrow> (exn + unit) \<times> 'w"
  end_simulation_run :: "'w \<Rightarrow> (exn + unit) \<times> 'w"
  build_large_network :: "'w \<Rightarrow> (exn + bool) \<times> 'w"
  advance_time :: "int \<Rightarrow> int \<Rightarrow> 'w \<Rightarrow> (exn + bool) \<times> 'w"
  evolve_network :: "int \<Rightarrow> 'w \<Rightarrow> (exn + summary) \<times> 'w"

text \<open>\<open>_log_iteration_summary\<close> subscripts two keys, which raises when one is absent.\<close>

definition log_iteration_summary :: "int \<Rightarrow> summary \<Rightarrow> exn + unit" where
  "log_iteration_summary i stats =
     (case total_actions stats of
        None \<Rightarrow> Inl KeyError
      | Some t \<Rightarrow>
          (case successful_actions stats of
             None \<Rightarrow> Inl KeyError
           | Some s \<Rightarrow> Inr ()))"

text \<open>
  The loop of \<open>_run_iterations\<close> over the indices \<open>i\<close> of \<open>range(iterations)\<close>. The
  state is the list \<open>iteration_stats\<close> and the world.
\<close>

fun run_iterations_loop ::
  "'w BaseSimulation \<Rightarrow> nat list \<Rightarrow> summary list \<times> 'w \<Rightarrow> (exn + bool) \<times> summary list \<times> 'w" where
  "run_iterations_loop S [] (iteration_stats, w) = (Inr True, iteration_stats, w)"
| "run_iterations_loop S (i # rest) (iteration_stats, w) =
     (case advance_time S (blocks_per_iteration S) (block_time S) w of
        (Inl e, w1) \<Rightarrow> (Inl e, iteration_stats, w1)
      | (Inr ok, w1) \<Rightarrow>
          if \<not> ok then (Inr False, iteration_stats, w1)
          else
            (case evolve_network S (int i + 1) w1 of
               (Inl e, w2) \<Rightarrow> (Inl e, iteration_stats, w2)
             | (Inr stats, w2) \<Rightarrow>
                 (case log_iteration_summary (int i + 1) stats of
                    Inl e \<Rightarrow> (Inl e, iteration_stats @ [stats], w2)
                  | Inr u \<Rightarrow> run_iterations_loop S rest (iteration_stats @ [stats], w2))))"

definition run_iterations ::
  "'w BaseSimulation \<Rightarrow> summary list \<times> 'w \<Rightarrow> (exn + bool) \<times> summary list \<times> 'w" where
  "run_iterations S s = run_iterations_loop S [0 ..< nat (iterations S)] s"

text \<open>\<open>_build_initial_network\<close>: an exception of the builder is the result \<open>False\<close>.\<close>

definition build_initial_network :: "'w BaseSimulation \<Rightarrow> 'w \<Rightarrow> bool \<times> 'w" where
  "build_initial_network S w =
     (case build_large_network S w of
        (Inl e, w') \<Rightarrow> (False, w')
      | (Inr success, w') \<Rightarrow> (success, w'))"

text \<open>
  \<open>run\<close>. \<open>run_start\<close> is the part of its \<open>try\<close> block before the network is built:
  the metadata and, with a collector, the start of the recorded run. \<open>run_try\<close> is the
  whole block; \<open>run\<close> adds the \<open>except Exception\<close> clause, which returns \<open>False\<close>.
\<close>

definition run_start :: "'w BaseSimulation \<Rightarrow> 'w \<Rightarrow> (exn + unit) \<times> 'w" where
  "run_start S w =
     (case create_simulation_metadata S w of
        (Inl e, w1) \<Rightarrow> (Inl e, w1)
      | (Inr metadata, w1) \<Rightarrow>
          if has_collector S then
            (case get_simulation_description S w1 of
               (Inl e, w2) \<Rightarrow> (Inl e, w2)
             | (Inr description, w2) \<Rightarrow> start_simulation_run S metadata description w2)
          else (Inr (), w1))"

definition run_try ::
  "'w BaseSimulation \<Rightarrow> summary list \<times> 'w \<Rightarrow> (exn + bool) \<times> summary list \<times> 'w" where
  "run_try S s =
     (case s of (iteration_stats, w) \<Rightarrow>
        (case run_start S w of
           (Inl e, w1) \<Rightarrow> (Inl e, iteration_stats, w1)
         | (Inr u, w1) \<Rightarrow>
             (case build_initial_network S w1 of
                (built, w2) \<Rightarrow>
                  if \<not> built then (Inr False, iteration_stats, w2)
                  else
                    (case run_iterations S (iteration_stats, w2) of
                       (Inl e, stats3, w3) \<Rightarrow> (Inl e, stats3, w3)
                     | (Inr finished, stats3, w3) \<Rightarrow>
                         if \<not> finished then (Inr False, stats3, w3)
                         else if has_collector S then
                           (case end_simulation_run S w3 of
                              (Inl e, w4) \<Rightarrow> (Inl e, stats3, w4)
                            | (Inr u', w4) \<Rightarrow> (Inr True, stats3, w4))
                         else (Inr True, stats3, w3)))))"

definition run :: "'w BaseSimulation \<Rightarrow> summary list \<times> 'w \<Rightarrow> bool \<times> summary list \<times> 'w" where
  "run S s =
     (case run_try S s of
        (Inl e, stats, w) \<Rightarrow> (False, stats, w)
      | (Inr b, stats, w) \<Rightarrow> (b, stats, w))"

text \<open>
  \<open>get_statistics\<close>, the accessor of the statistics: the sums over \<open>iteration_stats\<close>,
  with \<open>s.get(key, 0)\<close> for a summary without the key. The clock and the head block
  of the chain are read from outside.
\<close>

record statistics =
  duration :: real
  stat_network_size :: int
  iterations_completed :: nat
  stat_total_actions :: int
  stat_successful_actions :: int
  stat_current_block :: int
  stat_action_counts :: "string \<rightharpoonup> int"

definition add_counts :: "(string \<rightharpoonup> int) \<Rightarrow> (string \<times> int) list \<Rightarrow> (string \<rightharpoonup> int)" where
  "add_counts m kvs = foldl (\<lambda>acc (k, v). acc(k \<mapsto> dict_get acc k 0 + v)) m kvs"

definition opt_get :: "'a option \<Rightarrow> 'a \<Rightarrow> 'a" where
  "opt_get x dflt = (case x of None \<Rightarrow> dflt | Some v \<Rightarrow> v)"

definition get_statistics ::
  "'w BaseSimulation \<Rightarrow> summary list \<Rightarrow> datetime \<Rightarrow> int \<Rightarrow> statistics" where
  "get_statistics S iteration_stats now head_number =
     \<lparr> duration = now - simulation_start_time S,
       stat_network_size = network_size S,
       iterations_completed = length iteration_stats,
       stat_total_actions = sum_list (map (\<lambda>s. opt_get (total_actions s) 0) iteration_stats),
       stat_successful_actions =
         sum_list (map (\<lambda>s. opt_get (successful_actions s) 0) iteration_stats),
       stat_current_block = head_number,
       stat_action_counts =
         foldl (\<lambda>acc s. add_counts acc (opt_get (action_counts s) [])) Map.empty iteration_stats \<rparr>"

text \<open>
  The scenario in which the iterations \<open>k + 1, k + 2, ...\<close> run to their end, one for
  each summary of the list: time advances, the evolver returns that summary, and the
  summary can be logged. \<open>w\<close> is the world before the first of them, \<open>w'\<close> the world
  after the last.
\<close>

fun iterations_succeed ::
  "'w BaseSimulation \<Rightarrow> nat \<Rightarrow> summary list \<Rightarrow> 'w \<Rightarrow> 'w \<Rightarrow> bool" where
  "iterations_succeed S k [] w w' = (w' = w)"
| "iterations_succeed S k (s # ss) w w' =
     (case advance_time S (blocks_per_iteration S) (block_time S) w of
        (Inl e, w1) \<Rightarrow> False
      | (Inr ok, w1) \<Rightarrow>
          ok \<and>
          (case evolve_network S (int k + 1) w1 of
             (Inl e, w2) \<Rightarrow> False
           | (Inr stats, w2) \<Rightarrow>
               stats = s \<and> log_iteration_summary (int k + 1) s = Inr ()
               \<and> iterations_succeed S (Suc k) ss w2 w'))"

section \<open>Concrete agents, generators and simulations\<close>

text \<open>
  An agent with one preset address and one action, \<open>mint\<close>, that its profile always
  allows; \<open>q\<close> is its daily quota.
\<close>

definition demo_profile :: "int \<Rightarrow> AgentProfile" where
  "demo_profile q =
     \<lparr> max_daily_actions = q, risk_tolerance = 1, preset_addresses = [''0xA''],
       action_configs = [(''mint'', \<lparr> probability = 1 \<rparr>)],
       profile_get_action_config = (\<lambda>n. Inr (map_of [(''mint'', \<lparr> probability = 1 \<rparr>)] n)),
       profile_can_perform_action = (\<lambda>n current last. Inr True) \<rparr>"

definition demo_agent :: "int \<Rightarrow> BaseAgent" where
  "demo_agent q = BaseAgent_init ''agent-1'' (demo_profile q)"

definition demo_rng :: rng where
  "demo_rng = \<lparr> rnd_choices = (\<lambda>population weights. Inr (hd population)), rnd_choice = hd \<rparr>"

text \<open>Profiles whose configuration lookup, or whose predicate, raises.\<close>

definition lookup_raises_agent :: BaseAgent where
  "lookup_raises_agent = BaseAgent_init ''agent-2''
     ((demo_profile 2)\<lparr> profile_get_action_config := (\<lambda>n. Inl KeyError) \<rparr>)"

definition predicate_raises_agent :: BaseAgent where
  "predicate_raises_agent = BaseAgent_init ''agent-3''
     ((demo_profile 2)\<lparr> profile_can_perform_action := (\<lambda>n current last. Inl ValueError) \<rparr>)"

text \<open>A generator that counts its invocations in the world and returns the count.\<close>

definition counting :: "cache \<Rightarrow> nat \<Rightarrow> (exn + pyval) \<times> cache \<times> nat" where
  "counting c n = (Inr (PInt (int n)), c, Suc n)"

text \<open>
  A generator that also counts its invocations, raises at the first of them and
  returns the count from then on.
\<close>

definition raising_once :: "cache \<Rightarrow> nat \<Rightarrow> (exn + pyval) \<times> cache \<times> nat" where
  "raising_once c n = (if n = 0 then Inl RuntimeError else Inr (PInt (int n)), c, Suc n)"

text \<open>
  A simulation of five iterations whose world is the log of the collaborator calls, and
  whose third call of \<open>advance_time\<close> returns \<open>False\<close>.
\<close>

definition demo_summary :: "int \<Rightarrow> summary" where
  "demo_summary i =
     \<lparr> total_actions = Some (2 * i), successful_actions = Some i,
       action_counts = Some [(''mint'', i), (''trust'', i)] \<rparr>"

definition demo_simulation :: "string list BaseSimulation" where
  "demo_simulation =
     \<lparr> network_size = 20, iterations = 5, blocks_per_iteration = 100, block_time = 5,
       has_collector = False, simulation_start_time = 0,
       create_simulation_metadata = (\<lambda>w. (Inr Map.empty, w @ [''create_simulation_metadata''])),
       get_simulation_description = (\<lambda>w. (Inr ''demo'', w)),
       start_simulation_run = (\<lambda>m d w. (Inr (), w)),
       end_simulation_run = (\<lambda>w. (Inr (), w)),
       build_large_network = (\<lambda>w. (Inr True, w @ [''build_large_network''])),
       advance_time = (\<lambda>n t w.
         (Inr (length (filter (\<lambda>c. c = ''advance_time'') w) \<noteq> 2), w @ [''advance_time''])),
       evolve_network = (\<lambda>i w. (Inr (demo_summary i), w @ [''evolve_network''])) \<rparr>"

section \<open>Auxiliary lemmas\<close>

subsection \<open>\<open>str\<close> is injective on integers\<close>

declare str_nat.simps [simp del]

lemma digit_cases: "d < 10 \<Longrightarrow> d \<in> {0, 1, 2, 3, 4, 5, 6, 7, 8, 9::nat}"
  by auto

lemma digit_val_digit_char: "d < 10 \<Longrightarrow> digit_val (digit_char d) = d"
  using digit_cases [of d] by (auto simp: digit_val_def digit_char_def)

lemma digit_char_not_minus: "d < 10 \<Longrightarrow> digit_char d \<noteq> CHR ''-''"
  using digit_cases [of d] by (auto simp: digit_char_def)

lemma nat_of_str_snoc: "nat_of_str (s @ [c]) = 10 * nat_of_str s + digit_val c"
  by (simp add: nat_of_str_def)

lemma nat_of_str_str_nat: "nat_of_str (str_nat n) = n"
proof (induction n rule: str_nat.induct)
  case (1 n)
  show ?case
  proof (cases "n < 10")
    case True
    then show ?thesis
      by (subst str_nat.simps) (simp add: nat_of_str_def digit_val_digit_char)
  next
    case False
    then have "nat_of_str (str_nat (n div 10)) = n div 10"
      using "1.IH" by simp
    with False show ?thesis
      by (subst str_nat.simps) (simp add: nat_of_str_snoc digit_val_digit_char)
  qed
qed

lemma str_nat_inj: "str_nat m = str_nat n \<Longrightarrow> m = n"
  by (metis nat_of_str_str_nat)

lemma hd_str_nat: "str_nat n \<noteq> [] \<and> hd (str_nat n) \<noteq> CHR ''-''"
proof (induction n rule: str_nat.induct)
  case (1 n)
  show ?case
  proof (cases "n < 10")
    case True
    then show ?thesis
      by (subst (1 2) str_nat.simps) (simp add: digit_char_not_minus)
  next
    case False
    with "1.IH" show ?thesis
      by (subst (1 2) str_nat.simps) simp
  qed
qed

lemma str_nat_not_minus: "str_nat m \<noteq> CHR ''-'' # s"
  using hd_str_nat [of m] by (metis list.sel(1))

lemma str_int_inj: "str_int i = str_int j \<Longrightarrow> i = j"
proof -
  assume eq: "str_int i = str_int j"
  show "i = j"
  proof (cases "i < 0"; cases "j < 0")
    assume neg: "i < 0" "j < 0"
    with eq have "str_nat (nat (- i)) = str_nat (nat (- j))"
      by (simp add: str_int_def)
    then have "nat (- i) = nat (- j)"
      by (rule str_nat_inj)
    with neg show ?thesis by simp
  next
    assume "i < 0" "\<not> j < 0"
    with eq str_nat_not_minus [of "nat j" "str_nat (nat (- i))"] show ?thesis
      by (simp add: str_int_def)
  next
    assume "\<not> i < 0" "j < 0"
    with eq str_nat_not_minus [of "nat i" "str_nat (nat (- j))"] show ?thesis
      by (simp add: str_int_def)
  next
    assume pos: "\<not> i < 0" "\<not> j < 0"
    with eq have "str_nat (nat i) = str_nat (nat j)"
      by (simp add: str_int_def)
    then have "nat i = nat j"
      by (rule str_nat_inj)
    with pos show ?thesis by simp
  qed
qed

lemma iteration_key_inj: "iteration_key key i = iteration_key key j \<Longrightarrow> i = j"
  by (simp add: iteration_key_def str_int_inj)

lemma str_int_examples:
  "str_int 1 = ''1''" "str_int 2 = ''2''" "str_int 3 = ''3''"
  by (simp_all add: str_int_def str_nat.simps digit_char_def)

subsection \<open>Rate limits\<close>

lemma record_action_count:
  "dict_get (daily_action_counts (record_action a today action_name block_number success)) d 0
     = dict_get (daily_action_counts a) d 0 + (if success \<and> d = today then 1 else 0)"
  by (simp add: record_action_def dict_get_def)

lemma record_action_profile:
  "profile (record_action a today action_name block_number success) = profile a"
  by (simp add: record_action_def)

lemma record_actions_profile: "profile (record_actions a calls) = profile a"
  by (induction a calls rule: record_actions.induct) (simp_all add: record_action_profile)

text \<open>\<open>select_action\<close> offers an action only below the quota.\<close>

lemma select_action_offers_below_quota:
  "select_action g a today current_block network_state = Inr (Some action_name, address, ps)
   \<Longrightarrow> dict_get (daily_action_counts a) today 0 < max_daily_actions (profile a)"
  by (cases "dict_get (daily_action_counts a) today 0 \<ge> max_daily_actions (profile a)")
     (simp_all add: select_action_def)

subsection \<open>The cache\<close>

text \<open>
  On a context that has been given a \<open>cache_ttl\<close> from outside, \<open>get_cached\<close>
  applies the time to live to a \<open>CacheEntry\<close>.
\<close>

lemma get_cached_with_ttl:
  "cache_ttl ctx = Some ttl \<Longrightarrow> c key = Some (CacheEntry v ts) \<Longrightarrow>
   get_cached ctx now c key
     = (if now - ts > ttl then (Inr PNone, c(key := None)) else (Inr v, c))"
  by (simp add: get_cached_def)

subsection \<open>The sums of the statistics accessor\<close>

lemma add_counts_get:
  "dict_get (add_counts m kvs) k 0
     = dict_get m k 0 + sum_list (map snd (filter (\<lambda>kv. fst kv = k) kvs))"
proof -
  let ?f = "\<lambda>acc (k, v). acc(k \<mapsto> dict_get acc k 0 + (v::int))"
  have "dict_get (foldl ?f m kvs) k 0
     = dict_get m k 0 + sum_list (map snd (filter (\<lambda>kv. fst kv = k) kvs))"
  proof (induction kvs arbitrary: m)
    case Nil
    then show ?case by simp
  next
    case (Cons kv kvs)
    obtain k' v where kv: "kv = (k', v)" by (cases kv)
    let ?m' = "m(k' \<mapsto> dict_get m k' 0 + v)"
    have step: "dict_get ?m' k 0 = dict_get m k 0 + (if k' = k then v else 0)"
      by (simp add: dict_get_def)
    have "foldl ?f m (kv # kvs) = foldl ?f ?m' kvs"
      by (simp add: kv)
    then have "dict_get (foldl ?f m (kv # kvs)) k 0
        = dict_get ?m' k 0 + sum_list (map snd (filter (\<lambda>kv. fst kv = k) kvs))"
      by (simp only: Cons.IH)
    also have "\<dots> = dict_get m k 0 + (if k' = k then v else 0)
        + sum_list (map snd (filter (\<lambda>kv. fst kv = k) kvs))"
      by (simp only: step)
    also have "\<dots> = dict_get m k 0
        + sum_list (map snd (filter (\<lambda>kv. fst kv = k) (kv # kvs)))"
      by (simp add: kv)
    finally show ?case .
  qed
  then show ?thesis by (simp add: add_counts_def)
qed

lemma fold_add_counts_get:
  "dict_get (foldl (\<lambda>acc s. add_counts acc (opt_get (action_counts s) [])) m ss) k 0
     = dict_get m k 0
       + sum_list (map (\<lambda>s. sum_list (map snd (filter (\<lambda>kv. fst kv = k)
                                  (opt_get (action_counts s) [])))) ss)"
  by (induction ss arbitrary: m) (simp_all add: add_counts_get)

subsection \<open>The iteration loop\<close>

lemma run_iterations_loop_succeed:
  "iterations_succeed S k ss w w' \<Longrightarrow>
   run_iterations_loop S ([k ..< k + length ss] @ rest) (st, w)
     = run_iterations_loop S rest (st @ ss, w')"
proof (induction ss arbitrary: k st w)
  case Nil
  then show ?case by simp
next
  case (Cons s ss)
  obtain r1 w1 where adv: "advance_time S (blocks_per_iteration S) (block_time S) w = (r1, w1)"
    by (cases "advance_time S (blocks_per_iteration S) (block_time S) w")
  with Cons.prems have r1: "r1 = Inr True"
    by (cases r1) auto
  obtain r2 w2 where ev: "evolve_network S (int k + 1) w1 = (r2, w2)"
    by (cases "evolve_network S (int k + 1) w1")
  with Cons.prems adv r1 have r2: "r2 = Inr s"
    and lg: "log_iteration_summary (int k + 1) s = Inr ()"
    and nxt: "iterations_succeed S (Suc k) ss w2 w'"
    by (cases r2; simp)+
  have "k < k + length (s # ss)" by simp
  then have "[k ..< k + length (s # ss)] = k # [Suc k ..< k + length (s # ss)]"
    by (rule upt_conv_Cons)
  moreover have "k + length (s # ss) = Suc k + length ss" by simp
  ultimately have idx: "[k ..< k + length (s # ss)] = k # [Suc k ..< Suc k + length ss]"
    by (simp only:)
  have "run_iterations_loop S ([k ..< k + length (s # ss)] @ rest) (st, w)
      = run_iterations_loop S (k # ([Suc k ..< Suc k + length ss] @ rest)) (st, w)"
    by (simp only: idx append_Cons)
  also have "\<dots> = run_iterations_loop S ([Suc k ..< Suc k + length ss] @ rest) (st @ [s], w2)"
    using adv r1 ev r2 lg by (simp del: upt_Suc)
  also have "\<dots> = run_iterations_loop S rest ((st @ [s]) @ ss, w')"
    by (rule Cons.IH [OF nxt])
  finally show ?case by simp
qed

lemma run_iterations_halt:
  assumes ok: "iterations_succeed S 0 ss w w'"
    and i: "length ss < nat (iterations S)"
    and fail: "advance_time S (blocks_per_iteration S) (block_time S) w' = (Inr False, w'')"
  shows "run_iterations S (st, w) = (Inr False, st @ ss, w'')"
proof -
  have "[0 ..< nat (iterations S)]
      = [0 ..< 0 + length ss] @ (length ss # [Suc (length ss) ..< nat (iterations S)])"
    using i by (metis add_0 less_imp_le_nat upt_add_eq_append upt_conv_Cons le0
        le_add_diff_inverse)
  then have "run_iterations S (st, w)
      = run_iterations_loop S (length ss # [Suc (length ss) ..< nat (iterations S)]) (st @ ss, w')"
    unfolding run_iterations_def using run_iterations_loop_succeed [OF ok] by simp
  also have "\<dots> = (Inr False, st @ ss, w'')"
    using fail by simp
  finally show ?thesis .
qed

section \<open>Properties\<close>

subsection \<open>C1: the daily quota\<close>

text \<open>
  C1, as stated: after any sequence of \<open>record_action\<close> calls the count of today never
  exceeds \<open>max_daily_actions\<close>. \<open>record_action\<close> does not read the quota, so the
  statement fails: an agent with quota 1 that records two successful actions on one day
  has count 2.
\<close>

theorem record_actions_exceed_quota:
  "dict_get (daily_action_counts (record_actions (demo_agent 1)
      [(''2025-01-01'', ''mint'', 10, True), (''2025-01-01'', ''mint'', 20, True)]))
     ''2025-01-01'' 0
   > max_daily_actions (profile (demo_agent 1))"
  by (simp add: demo_agent_def demo_profile_def BaseAgent_init_def record_action_def dict_get_def)

text \<open>
  C1, amended: the quota is kept by the test at the start of \<open>select_action\<close>, not
  by \<open>record_action\<close>. For every agent whose count of a day \<open>d\<close> is at most
  \<open>max_daily_actions\<close>, and every sequence of \<open>record_action\<close> calls in which each
  successful call is made while the count of its day is below \<open>max_daily_actions\<close>
  (\<open>within_quota\<close>), the count of \<open>d\<close> is at most \<open>max_daily_actions\<close> afterwards.
\<close>

theorem record_actions_within_quota:
  assumes "dict_get (daily_action_counts a) d 0 \<le> max_daily_actions (profile a)"
    and "within_quota a calls"
  shows "dict_get (daily_action_counts (record_actions a calls)) d 0
           \<le> max_daily_actions (profile a)"
  using assms
proof (induction a calls rule: record_actions.induct)
  case (1 a)
  then show ?case by simp
next
  case (2 a today action_name block_number success calls)
  let ?a' = "record_action a today action_name block_number success"
  have "dict_get (daily_action_counts ?a') d 0 \<le> max_daily_actions (profile ?a')"
    using "2.prems" by (auto simp: record_action_count record_action_profile)
  moreover have "within_quota ?a' calls"
    using "2.prems" by simp
  ultimately show ?case
    using "2.IH" by (simp add: record_action_profile)
qed

theorem record_actions_within_quota_witness:
  "dict_get (daily_action_counts (demo_agent 2)) ''2025-01-01'' 0
     \<le> max_daily_actions (profile (demo_agent 2))
   \<and> within_quota (demo_agent 2)
       [(''2025-01-01'', ''mint'', 10, True), (''2025-01-01'', ''mint'', 15, False),
        (''2025-01-01'', ''mint'', 20, True)]
   \<and> dict_get (daily_action_counts (record_actions (demo_agent 2)
       [(''2025-01-01'', ''mint'', 10, True), (''2025-01-01'', ''mint'', 15, False),
        (''2025-01-01'', ''mint'', 20, True)])) ''2025-01-01'' 0 = 2
   \<and> max_daily_actions (profile (demo_agent 2)) = 2"
proof -
  have h1: "dict_get (daily_action_counts (demo_agent 2)) ''2025-01-01'' 0
      \<le> max_daily_actions (profile (demo_agent 2))"
    by (simp add: demo_agent_def demo_profile_def BaseAgent_init_def dict_get_def)
  have h2: "within_quota (demo_agent 2)
       [(''2025-01-01'', ''mint'', 10, True), (''2025-01-01'', ''mint'', 15, False),
        (''2025-01-01'', ''mint'', 20, True)]"
    by (simp add: demo_agent_def demo_profile_def BaseAgent_init_def record_action_def
        dict_get_def)
  show ?thesis
    using h1 h2 record_actions_within_quota [OF h1 h2]
    by (simp add: demo_agent_def demo_profile_def BaseAgent_init_def record_action_def
        dict_get_def)
qed

subsection \<open>C2: zero balances\<close>

text \<open>
  C2, as stated: for an account the agent controls, a zero balance for a pair without
  a prior entry leaves the mapping of current balances unchanged. The inner dictionary
  of the account is created before the balance is tested, so the mapping changes when
  the account had none: it gains the account with an empty dictionary.
\<close>

theorem update_balance_zero_changes_current:
  "balances_ERC20 (update_balance (demo_agent 2) ''0xA'' ''token'' 0 0 7)
     \<noteq> balances_ERC20 (demo_agent 2)"
proof
  assume "balances_ERC20 (update_balance (demo_agent 2) ''0xA'' ''token'' 0 0 7)
     = balances_ERC20 (demo_agent 2)"
  then have "balances_ERC20 (update_balance (demo_agent 2) ''0xA'' ''token'' 0 0 7) ''0xA''
     = balances_ERC20 (demo_agent 2) ''0xA''"
    by simp
  then show False
    by (simp add: demo_agent_def demo_profile_def BaseAgent_init_def update_balance_def
        get_accounts_def dict_get_def Let_def)
qed

text \<open>
  C2, amended: for every agent that controls the account, \<open>update_balance\<close> with
  balance 0 for a pair without a prior entry leaves the history unchanged and leaves
  \<open>get_last_balance\<close> of every pair unchanged; the mapping of current balances is
  unchanged when the account already has an inner dictionary and gains an empty one
  for the account otherwise. The same call for a pair with a prior entry sets
  \<open>current[account][contract]\<close> to 0 and appends a \<open>BalanceUpdate\<close> to the history.
\<close>

theorem update_balance_zero:
  assumes "acct \<in> set (get_accounts a)"
  shows "(get_last_balance a acct con = None \<longrightarrow>
            balances_history (update_balance a acct con 0 ts blk) = balances_history a
          \<and> (\<forall>x y. get_last_balance (update_balance a acct con 0 ts blk) x y
                  = get_last_balance a x y)
          \<and> balances_ERC20 (update_balance a acct con 0 ts blk)
              = (if acct \<in> dom (balances_ERC20 a) then balances_ERC20 a
                 else (balances_ERC20 a)(acct \<mapsto> Map.empty)))
       \<and> (get_last_balance a acct con \<noteq> None \<longrightarrow>
            get_last_balance (update_balance a acct con 0 ts blk) acct con = Some 0
          \<and> balances_ERC20 (update_balance a acct con 0 ts blk)
              = (balances_ERC20 a)
                  (acct \<mapsto> (dict_get (balances_ERC20 a) acct Map.empty)(con \<mapsto> 0))
          \<and> balances_history (update_balance a acct con 0 ts blk)
              = balances_history a @
                [\<lparr> contract = con, account = acct, balance = 0, timestamp = ts, block = blk \<rparr>])"
proof (intro conjI impI)
  assume n: "get_last_balance a acct con = None"
  show "balances_history (update_balance a acct con 0 ts blk) = balances_history a"
    using assms n
    by (auto simp: update_balance_def get_last_balance_def dict_get_def Let_def
        split: option.splits)
  show "\<forall>x y. get_last_balance (update_balance a acct con 0 ts blk) x y
      = get_last_balance a x y"
    using assms n
    by (auto simp: update_balance_def get_last_balance_def dict_get_def Let_def
        split: option.splits)
  show "balances_ERC20 (update_balance a acct con 0 ts blk)
      = (if acct \<in> dom (balances_ERC20 a) then balances_ERC20 a
         else (balances_ERC20 a)(acct \<mapsto> Map.empty))"
    using assms n
    by (auto simp: update_balance_def get_last_balance_def dict_get_def Let_def
        split: option.splits)
next
  assume s: "get_last_balance a acct con \<noteq> None"
  show "get_last_balance (update_balance a acct con 0 ts blk) acct con = Some 0"
    using assms s
    by (auto simp: update_balance_def get_last_balance_def dict_get_def Let_def
        split: option.splits)
  show "balances_ERC20 (update_balance a acct con 0 ts blk)
      = (balances_ERC20 a)(acct \<mapsto> (dict_get (balances_ERC20 a) acct Map.empty)(con \<mapsto> 0))"
    using assms s
    by (auto simp: update_balance_def get_last_balance_def dict_get_def Let_def
        split: option.splits)
  show "balances_history (update_balance a acct con 0 ts blk)
      = balances_history a @
        [\<lparr> contract = con, account = acct, balance = 0, timestamp = ts, block = blk \<rparr>]"
    using assms s
    by (auto simp: update_balance_def get_last_balance_def dict_get_def Let_def
        split: option.splits)
qed

theorem update_balance_zero_witness:
  "''0xA'' \<in> set (get_accounts (demo_agent 2))
   \<and> get_last_balance (demo_agent 2) ''0xA'' ''token'' = None
   \<and> balances_history (update_balance (demo_agent 2) ''0xA'' ''token'' 0 0 7) = []
   \<and> balances_ERC20 (update_balance (demo_agent 2) ''0xA'' ''token'' 0 0 7)
       = [''0xA'' \<mapsto> Map.empty]
   \<and> ''0xA'' \<in> set (get_accounts (update_balance (demo_agent 2) ''0xA'' ''token'' 5 0 7))
   \<and> get_last_balance (update_balance (demo_agent 2) ''0xA'' ''token'' 5 0 7) ''0xA'' ''token''
       = Some 5
   \<and> get_last_balance
        (update_balance (update_balance (demo_agent 2) ''0xA'' ''token'' 5 0 7)
           ''0xA'' ''token'' 0 1 8) ''0xA'' ''token'' = Some 0
   \<and> balances_history
        (update_balance (update_balance (demo_agent 2) ''0xA'' ''token'' 5 0 7)
           ''0xA'' ''token'' 0 1 8)
       = [\<lparr> contract = ''token'', account = ''0xA'', balance = 5, timestamp = 0, block = 7 \<rparr>,
          \<lparr> contract = ''token'', account = ''0xA'', balance = 0, timestamp = 1, block = 8 \<rparr>]"
proof -
  let ?held = "update_balance (demo_agent 2) ''0xA'' ''token'' 5 0 7"
  have own: "''0xA'' \<in> set (get_accounts (demo_agent 2))"
    by (simp add: demo_agent_def demo_profile_def BaseAgent_init_def get_accounts_def)
  have own': "''0xA'' \<in> set (get_accounts ?held)"
    by (simp add: demo_agent_def demo_profile_def BaseAgent_init_def get_accounts_def
        update_balance_def Let_def)
  have none: "get_last_balance (demo_agent 2) ''0xA'' ''token'' = None"
    by (simp add: demo_agent_def demo_profile_def BaseAgent_init_def get_last_balance_def
        dict_get_def)
  have some: "get_last_balance ?held ''0xA'' ''token'' = Some 5"
    by (simp add: demo_agent_def demo_profile_def BaseAgent_init_def get_last_balance_def
        get_accounts_def update_balance_def dict_get_def Let_def)
  have hist: "balances_history ?held
      = [\<lparr> contract = ''token'', account = ''0xA'', balance = 5, timestamp = 0, block = 7 \<rparr>]"
    by (simp add: demo_agent_def demo_profile_def BaseAgent_init_def
        get_accounts_def update_balance_def dict_get_def Let_def)
  have empty: "balances_ERC20 (demo_agent 2) = Map.empty" "balances_history (demo_agent 2) = []"
    by (simp_all add: demo_agent_def BaseAgent_init_def)
  show ?thesis
    using own own' none some hist empty
      update_balance_zero [OF own, of "''token''" 0 7]
      update_balance_zero [OF own', of "''token''" 1 8]
    by simp
qed

subsection \<open>C3: reading the cache\<close>

text \<open>
  C3: \<open>get_cached\<close> returns the value of an entry whose age is within the time to
  live, returns \<open>None\<close> and evicts an older one, and fails for no other reason. The
  constructor of \<open>SimulationContext\<close> never assigns \<open>cache_ttl\<close>, so on a context as
  constructed the method raises \<open>AttributeError\<close> for every \<open>CacheEntry\<close> it finds,
  whatever its age, and the cache is left as it was.
\<close>

theorem get_cached_raises:
  "get_cached (SimulationContext_init 1) 5 [''k'' \<mapsto> CacheEntry (PInt 1) 0] ''k''
     = (Inl AttributeError, [''k'' \<mapsto> CacheEntry (PInt 1) 0])
   \<and> get_cached (SimulationContext_init it) now (c(key \<mapsto> CacheEntry v ts)) key
     = (Inl AttributeError, c(key \<mapsto> CacheEntry v ts))"
  by (simp add: get_cached_def SimulationContext_init_def)

subsection \<open>C4: failed actions\<close>

text \<open>
  C4. For every agent, action name and block number, \<open>record_action\<close> with
  \<open>success = False\<close> returns the agent as it was: \<open>last_actions\<close>,
  \<open>daily_action_counts\<close> and \<open>action_history\<close> are all unchanged.
\<close>

theorem record_action_failure_frame:
  "record_action a today action_name block_number False = a
   \<and> last_actions (record_action a today action_name block_number False) = last_actions a
   \<and> daily_action_counts (record_action a today action_name block_number False)
       = daily_action_counts a
   \<and> action_history (record_action a today action_name block_number False) = action_history a"
  by (simp add: record_action_def)

subsection \<open>C5: computing once per key and iteration\<close>

text \<open>
  C5, as stated: for every key and every compute function \<open>f\<close>, two calls of
  \<open>get_or_cache\<close> with the same key within one iteration invoke \<open>f\<close> exactly once and
  return the same value. The statement fails in two ways. A generator that raises at
  its first invocation stores nothing, so the second call invokes it again: after both
  calls the counter of invocations is 2, and the first call raised while the second
  returned. A key that is already stored for the iteration is returned without any
  invocation: the counter stays at 0.
\<close>

theorem get_or_cache_not_exactly_once:
  "get_or_cache (SimulationContext_init 1) ''k'' raising_once (Map.empty, 0)
     = (Inl RuntimeError, Map.empty, 1)
   \<and> get_or_cache (SimulationContext_init 1) ''k'' raising_once (Map.empty, 1)
     = (Inr (PInt 1), [''k_iter_1'' \<mapsto> PInt 1], 2)
   \<and> get_or_cache (SimulationContext_init 1) ''k'' counting ([''k_iter_1'' \<mapsto> PStr ''stored''], 0)
     = (Inr (PStr ''stored''), [''k_iter_1'' \<mapsto> PStr ''stored''], 0)"
  by (simp add: get_or_cache_def SimulationContext_init_def iteration_key_def
      str_int_examples raising_once_def counting_def)

text \<open>
  C5, amended. For every key that is not yet stored for the iteration of the context,
  and every compute function \<open>f\<close> whose invocation returns a value \<open>v\<close>: the first
  \<open>get_or_cache\<close> returns \<open>v\<close> and leaves the world as one invocation of \<open>f\<close> left
  it, with \<open>v\<close> stored under the key of the iteration; the second call with the same
  key returns the same \<open>v\<close> and changes neither the cache nor the world, so \<open>f\<close> is
  invoked exactly once; and a call with the same key from a context of another
  iteration number, whose own key is not stored, invokes \<open>f\<close> again, once for that
  iteration. A key that is already stored is returned without an invocation of \<open>f\<close>.
  When \<open>f\<close> raises, the exception leaves \<open>get_or_cache\<close> and nothing is stored.
\<close>

theorem get_or_cache_once_per_iteration:
  "(c (iteration_key key (iteration ctx)) = None \<and> f c w = (Inr v, c', w')
      \<longrightarrow> get_or_cache ctx key f (c, w)
            = (Inr v, c'(iteration_key key (iteration ctx) \<mapsto> v), w')
        \<and> get_or_cache ctx key f (c'(iteration_key key (iteration ctx) \<mapsto> v), w')
            = (Inr v, c'(iteration_key key (iteration ctx) \<mapsto> v), w')
        \<and> (\<forall>(ctx2::SimulationContext) v2 c2 w2.
              iteration ctx2 \<noteq> iteration ctx
              \<and> c' (iteration_key key (iteration ctx2)) = None
              \<and> f (c'(iteration_key key (iteration ctx) \<mapsto> v)) w' = (Inr v2, c2, w2)
            \<longrightarrow> get_or_cache ctx2 key f (c'(iteration_key key (iteration ctx) \<mapsto> v), w')
                  = (Inr v2, c2(iteration_key key (iteration ctx2) \<mapsto> v2), w2)))
   \<and> (c (iteration_key key (iteration ctx)) = Some hit
      \<longrightarrow> get_or_cache ctx key f (c, w) = (Inr hit, c, w))
   \<and> (c (iteration_key key (iteration ctx)) = None \<and> f c w = (Inl e, c', w')
      \<longrightarrow> get_or_cache ctx key f (c, w) = (Inl e, c', w'))"
proof (intro conjI allI impI)
  assume h: "c (iteration_key key (iteration ctx)) = None \<and> f c w = (Inr v, c', w')"
  then show "get_or_cache ctx key f (c, w)
      = (Inr v, c'(iteration_key key (iteration ctx) \<mapsto> v), w')"
    by (simp add: get_or_cache_def)
  show "get_or_cache ctx key f (c'(iteration_key key (iteration ctx) \<mapsto> v), w')
      = (Inr v, c'(iteration_key key (iteration ctx) \<mapsto> v), w')"
    by (simp add: get_or_cache_def)
next
  fix ctx2 :: SimulationContext and v2 c2 w2
  assume h: "iteration ctx2 \<noteq> iteration ctx
          \<and> c' (iteration_key key (iteration ctx2)) = None
          \<and> f (c'(iteration_key key (iteration ctx) \<mapsto> v)) w' = (Inr v2, c2, w2)"
  then have "iteration_key key (iteration ctx2) \<noteq> iteration_key key (iteration ctx)"
    using iteration_key_inj by blast
  with h show "get_or_cache ctx2 key f (c'(iteration_key key (iteration ctx) \<mapsto> v), w')
      = (Inr v2, c2(iteration_key key (iteration ctx2) \<mapsto> v2), w2)"
    by (simp add: get_or_cache_def)
next
  assume "c (iteration_key key (iteration ctx)) = Some hit"
  then show "get_or_cache ctx key f (c, w) = (Inr hit, c, w)"
    by (simp add: get_or_cache_def)
next
  assume "c (iteration_key key (iteration ctx)) = None \<and> f c w = (Inl e, c', w')"
  then show "get_or_cache ctx key f (c, w) = (Inl e, c', w')"
    by (simp add: get_or_cache_def)
qed

text \<open>
  With the counting generator: two calls in iteration 1 leave the counter at 1 and
  both return 0; the call in iteration 2 returns 1 and leaves the counter at 2. A
  stored value is returned with the counter untouched, and the exception of the
  generator that raises at first leaves the cache empty.
\<close>

theorem get_or_cache_once_per_iteration_witness:
  "get_or_cache (SimulationContext_init 1) ''k'' counting (Map.empty, 0)
     = (Inr (PInt 0), [''k_iter_1'' \<mapsto> PInt 0], 1)
   \<and> get_or_cache (SimulationContext_init 1) ''k'' counting ([''k_iter_1'' \<mapsto> PInt 0], 1)
     = (Inr (PInt 0), [''k_iter_1'' \<mapsto> PInt 0], 1)
   \<and> get_or_cache (SimulationContext_init 2) ''k'' counting ([''k_iter_1'' \<mapsto> PInt 0], 1)
     = (Inr (PInt 1), [''k_iter_1'' \<mapsto> PInt 0, ''k_iter_2'' \<mapsto> PInt 1], 2)
   \<and> get_or_cache (SimulationContext_init 1) ''k'' counting
        ([''k_iter_1'' \<mapsto> PStr ''stored''], 7)
     = (Inr (PStr ''stored''), [''k_iter_1'' \<mapsto> PStr ''stored''], 7)
   \<and> get_or_cache (SimulationContext_init 1) ''k'' raising_once (Map.empty, 0)
     = (Inl RuntimeError, Map.empty, 1)"
proof -
  have k1: "iteration_key ''k'' 1 = ''k_iter_1''" and k2: "iteration_key ''k'' 2 = ''k_iter_2''"
    by (simp_all add: iteration_key_def str_int_examples)
  have i1: "iteration (SimulationContext_init 1) = 1"
    and i2: "iteration (SimulationContext_init 2) = 2"
    by (simp_all add: SimulationContext_init_def)
  have g: "Map.empty (iteration_key ''k'' (iteration (SimulationContext_init 1))) = None
      \<and> counting Map.empty 0 = (Inr (PInt 0), Map.empty, 1)"
    by (simp add: counting_def)
  note t = get_or_cache_once_per_iteration
    [of Map.empty "''k''" "SimulationContext_init 1" counting 0 "PInt 0" Map.empty 1]
  from t g have a: "get_or_cache (SimulationContext_init 1) ''k'' counting (Map.empty, 0)
      = (Inr (PInt 0), [''k_iter_1'' \<mapsto> PInt 0], 1)"
    and b: "get_or_cache (SimulationContext_init 1) ''k'' counting ([''k_iter_1'' \<mapsto> PInt 0], 1)
      = (Inr (PInt 0), [''k_iter_1'' \<mapsto> PInt 0], 1)"
    by (simp_all add: i1 k1)
  from t g have "iteration (SimulationContext_init 2) \<noteq> iteration (SimulationContext_init 1)
      \<and> Map.empty (iteration_key ''k'' (iteration (SimulationContext_init 2))) = None
      \<and> counting (Map.empty(iteration_key ''k'' (iteration (SimulationContext_init 1)) \<mapsto> PInt 0)) 1
          = (Inr (PInt 1), [''k_iter_1'' \<mapsto> PInt 0], 2)
      \<longrightarrow> get_or_cache (SimulationContext_init 2) ''k'' counting
            (Map.empty(iteration_key ''k'' (iteration (SimulationContext_init 1)) \<mapsto> PInt 0), 1)
          = (Inr (PInt 1),
             [''k_iter_1'' \<mapsto> PInt 0]
               (iteration_key ''k'' (iteration (SimulationContext_init 2)) \<mapsto> PInt 1), 2)"
    by blast
  then have c: "get_or_cache (SimulationContext_init 2) ''k'' counting
        ([''k_iter_1'' \<mapsto> PInt 0], 1)
      = (Inr (PInt 1), [''k_iter_1'' \<mapsto> PInt 0, ''k_iter_2'' \<mapsto> PInt 1], 2)"
    by (simp add: i1 i2 k1 k2 counting_def)
  have d: "get_or_cache (SimulationContext_init 1) ''k'' counting
        ([''k_iter_1'' \<mapsto> PStr ''stored''], 7)
      = (Inr (PStr ''stored''), [''k_iter_1'' \<mapsto> PStr ''stored''], 7)"
    using get_or_cache_once_per_iteration
      [where c = "[''k_iter_1'' \<mapsto> PStr ''stored'']" and key = "''k''"
         and ctx = "SimulationContext_init 1" and f = counting and w = 7
         and hit = "PStr ''stored''"]
    by (simp add: i1 k1)
  have e: "get_or_cache (SimulationContext_init 1) ''k'' raising_once (Map.empty, 0)
      = (Inl RuntimeError, Map.empty, 1)"
    using get_or_cache_once_per_iteration
      [where c = Map.empty and key = "''k''" and ctx = "SimulationContext_init 1"
         and f = raising_once and w = 0 and e = RuntimeError and c' = Map.empty and w' = 1]
    by (simp add: raising_once_def)
  from a b c d e show ?thesis by blast
qed

subsection \<open>C6: cache keys\<close>

text \<open>
  C6. \<open>get_cache_key\<close> puts block numbers into ranges of width 10: for every base key
  the blocks 23 and 27 give the same key and the block 31 gives another one; in
  general two block numbers give the same key exactly when their quotients by 10
  agree. Without identifiers (\<open>None\<close> or an empty dictionary) the base key is returned
  unchanged.
\<close>

theorem get_cache_key_block_ranges:
  "get_cache_key base (Some [''block'' \<mapsto> PInt 23])
     = get_cache_key base (Some [''block'' \<mapsto> PInt 27])
   \<and> get_cache_key base (Some [''block'' \<mapsto> PInt 31])
       \<noteq> get_cache_key base (Some [''block'' \<mapsto> PInt 23])
   \<and> get_cache_key base (Some [''block'' \<mapsto> PInt 31])
       \<noteq> get_cache_key base (Some [''block'' \<mapsto> PInt 27])
   \<and> get_cache_key base None = Inr base
   \<and> get_cache_key base (Some Map.empty) = Inr base
   \<and> (get_cache_key base (Some (ids(''block'' \<mapsto> PInt m)))
        = get_cache_key base (Some (ids'(''block'' \<mapsto> PInt n)))
      \<longleftrightarrow> m div 10 = n div 10)"
proof -
  have "str_int 3 \<noteq> str_int 2"
    using str_int_inj [of 3 2] by auto
  then show ?thesis
    by (auto simp: get_cache_key_def dest: str_int_inj)
qed

theorem get_cache_key_block_ranges_witness:
  "get_cache_key ''x'' (Some [''block'' \<mapsto> PInt 23]) = Inr ''x_block_2''
   \<and> get_cache_key ''x'' (Some [''block'' \<mapsto> PInt 27]) = Inr ''x_block_2''
   \<and> get_cache_key ''x'' (Some [''block'' \<mapsto> PInt 31]) = Inr ''x_block_3''
   \<and> get_cache_key ''x'' None = Inr ''x''"
  using get_cache_key_block_ranges [of "''x''" Map.empty 23 Map.empty 27]
  by (simp add: get_cache_key_def str_int_examples)

subsection \<open>C7: selection under an exhausted quota\<close>

text \<open>
  C7. For every agent whose count of today is at least \<open>max_daily_actions\<close>,
  \<open>select_action\<close> returns no action, whatever the profile allows, whatever the random
  source draws and whatever the block is. In particular an agent with quota 2 that has
  recorded two successful actions today gets no action from a third call, although its
  one action is eligible.
\<close>

theorem select_action_quota_exhausted:
  assumes "dict_get (daily_action_counts a) today 0 \<ge> max_daily_actions (profile a)"
  shows "select_action g a today current_block network_state = Inr (None, [], [])"
  using assms by (simp add: select_action_def)

theorem select_action_quota_exhausted_witness:
  "dict_get (daily_action_counts (record_actions (demo_agent 2)
      [(''2025-01-01'', ''mint'', 10, True), (''2025-01-01'', ''mint'', 20, True)]))
     ''2025-01-01'' 0
     \<ge> max_daily_actions (profile (record_actions (demo_agent 2)
      [(''2025-01-01'', ''mint'', 10, True), (''2025-01-01'', ''mint'', 20, True)]))
   \<and> available_actions (record_actions (demo_agent 2)
      [(''2025-01-01'', ''mint'', 10, True), (''2025-01-01'', ''mint'', 20, True)]) 30 [''mint'']
     = Inr [(''mint'', 1)]
   \<and> select_action demo_rng (record_actions (demo_agent 2)
      [(''2025-01-01'', ''mint'', 10, True), (''2025-01-01'', ''mint'', 20, True)])
      ''2025-01-01'' 30 () = Inr (None, [], [])
   \<and> select_action demo_rng (demo_agent 2) ''2025-01-01'' 30 ()
     = Inr (Some ''mint'', ''0xA'',
            [(''sender'', StrParam ''0xA''), (''risk_tolerance'', NumParam 1)])"
proof -
  let ?a = "record_actions (demo_agent 2)
      [(''2025-01-01'', ''mint'', 10, True), (''2025-01-01'', ''mint'', 20, True)]"
  have full: "dict_get (daily_action_counts ?a) ''2025-01-01'' 0
      \<ge> max_daily_actions (profile ?a)"
    by (simp add: demo_agent_def demo_profile_def BaseAgent_init_def record_action_def
        dict_get_def)
  have eligible: "available_actions ?a 30 [''mint''] = Inr [(''mint'', 1)]"
    by (simp add: demo_agent_def demo_profile_def BaseAgent_init_def record_action_def
        dict_get_def)
  have fresh: "select_action demo_rng (demo_agent 2) ''2025-01-01'' 30 ()
     = Inr (Some ''mint'', ''0xA'',
            [(''sender'', StrParam ''0xA''), (''risk_tolerance'', NumParam 1)])"
    by (simp add: select_action_def demo_agent_def demo_profile_def BaseAgent_init_def
        dict_get_def demo_rng_def get_random_account_def get_accounts_def get_base_params_def)
  show ?thesis
    using full eligible fresh
      select_action_quota_exhausted [OF full, of demo_rng 30 "()"]
    by simp
qed

subsection \<open>C8: a failed time advance\<close>

text \<open>
  C8. Let the run start and the network be built, let the iterations 1 to \<open>i - 1\<close> run
  to their end with the summaries \<open>ss\<close> (so \<open>i = length ss + 1\<close>, at most the number
  of iterations), and let \<open>advance_time\<close> return \<open>False\<close> at iteration \<open>i\<close>. Then
  \<open>run\<close> returns \<open>False\<close>; the world is the one that call of \<open>advance_time\<close> left, so
  neither iteration \<open>i\<close> nor a later one is executed; and \<open>iteration_stats\<close>, empty at
  construction, is exactly \<open>ss\<close>. The accessor \<open>get_statistics\<close> then returns the
  statistics of these \<open>i - 1\<close> iterations: their number, the sums of their total and
  of their successful actions, and for every action the sum of its counts over them.
\<close>

theorem run_halts_at_failed_advance:
  assumes start: "run_start S w0 = (Inr (), w1)"
    and built: "build_initial_network S w1 = (True, w2)"
    and ok: "iterations_succeed S 0 ss w2 w3"
    and i: "length ss < nat (iterations S)"
    and fail: "advance_time S (blocks_per_iteration S) (block_time S) w3 = (Inr False, w4)"
  shows "run S ([], w0) = (False, ss, w4)
       \<and> run_iterations S ([], w2) = (Inr False, ss, w4)
       \<and> iterations_completed
           (get_statistics S (fst (snd (run S ([], w0)))) now head_number) = length ss
       \<and> stat_total_actions
           (get_statistics S (fst (snd (run S ([], w0)))) now head_number)
          = sum_list (map (\<lambda>s. opt_get (total_actions s) 0) ss)
       \<and> stat_successful_actions
           (get_statistics S (fst (snd (run S ([], w0)))) now head_number)
          = sum_list (map (\<lambda>s. opt_get (successful_actions s) 0) ss)
       \<and> stat_action_counts
           (get_statistics S (fst (snd (run S ([], w0)))) now head_number)
          = foldl (\<lambda>acc s. add_counts acc (opt_get (action_counts s) [])) Map.empty ss
       \<and> (\<forall>k. dict_get (stat_action_counts
                 (get_statistics S (fst (snd (run S ([], w0)))) now head_number)) k 0
              = sum_list (map (\<lambda>s. sum_list (map snd (filter (\<lambda>kv. fst kv = k)
                                       (opt_get (action_counts s) [])))) ss))
       \<and> stat_network_size
           (get_statistics S (fst (snd (run S ([], w0)))) now head_number) = network_size S
       \<and> stat_current_block
           (get_statistics S (fst (snd (run S ([], w0)))) now head_number) = head_number
       \<and> duration
           (get_statistics S (fst (snd (run S ([], w0)))) now head_number)
          = now - simulation_start_time S"
proof -
  have it: "run_iterations S ([], w2) = (Inr False, ss, w4)"
    using run_iterations_halt [OF ok i fail, of "[]"] by simp
  then have r: "run S ([], w0) = (False, ss, w4)"
    using start built by (simp add: run_def run_try_def)
  have counts: "dict_get (stat_action_counts (get_statistics S ss now head_number)) k 0
      = sum_list (map (\<lambda>s. sum_list (map snd (filter (\<lambda>kv. fst kv = k)
                               (opt_get (action_counts s) [])))) ss)" for k
    by (simp add: get_statistics_def fold_add_counts_get) (simp add: dict_get_def)
  have fields: "iterations_completed (get_statistics S ss now head_number) = length ss
      \<and> stat_total_actions (get_statistics S ss now head_number)
          = sum_list (map (\<lambda>s. opt_get (total_actions s) 0) ss)
      \<and> stat_successful_actions (get_statistics S ss now head_number)
          = sum_list (map (\<lambda>s. opt_get (successful_actions s) 0) ss)
      \<and> stat_action_counts (get_statistics S ss now head_number)
          = foldl (\<lambda>acc s. add_counts acc (opt_get (action_counts s) [])) Map.empty ss
      \<and> stat_network_size (get_statistics S ss now head_number) = network_size S
      \<and> stat_current_block (get_statistics S ss now head_number) = head_number
      \<and> duration (get_statistics S ss now head_number) = now - simulation_start_time S"
    by (simp add: get_statistics_def)
  have st: "fst (snd (run S ([], w0))) = ss"
    by (simp add: r)
  show ?thesis
    unfolding st using it r counts fields by blast
qed

text \<open>
  Iteration 3 of 5 fails: the log of the world ends with the third \<open>advance_time\<close>,
  the summaries of the iterations 1 and 2 are kept, and the accessor reports 2
  iterations, 6 actions in total, 3 of them successful, and 3 for each of the two
  actions.
\<close>

theorem run_halts_at_failed_advance_witness:
  "run demo_simulation ([], []) =
     (False, [demo_summary 1, demo_summary 2],
      [''create_simulation_metadata'', ''build_large_network'',
       ''advance_time'', ''evolve_network'', ''advance_time'', ''evolve_network'',
       ''advance_time''])
   \<and> iterations_completed
       (get_statistics demo_simulation (fst (snd (run demo_simulation ([], [])))) 9 250) = 2
   \<and> stat_total_actions
       (get_statistics demo_simulation (fst (snd (run demo_simulation ([], [])))) 9 250) = 6
   \<and> stat_successful_actions
       (get_statistics demo_simulation (fst (snd (run demo_simulation ([], [])))) 9 250) = 3
   \<and> stat_action_counts
       (get_statistics demo_simulation (fst (snd (run demo_simulation ([], [])))) 9 250)
      = [''mint'' \<mapsto> 3, ''trust'' \<mapsto> 3]
   \<and> dict_get (stat_action_counts
       (get_statistics demo_simulation (fst (snd (run demo_simulation ([], [])))) 9 250))
       ''mint'' 0 = 3
   \<and> stat_network_size
       (get_statistics demo_simulation (fst (snd (run demo_simulation ([], [])))) 9 250) = 20
   \<and> stat_current_block
       (get_statistics demo_simulation (fst (snd (run demo_simulation ([], [])))) 9 250) = 250
   \<and> duration
       (get_statistics demo_simulation (fst (snd (run demo_simulation ([], [])))) 9 250) = 9"
proof -
  have start: "run_start demo_simulation [] = (Inr (), [''create_simulation_metadata''])"
    by (simp add: run_start_def demo_simulation_def)
  have built: "build_initial_network demo_simulation [''create_simulation_metadata'']
      = (True, [''create_simulation_metadata'', ''build_large_network''])"
    by (simp add: build_initial_network_def demo_simulation_def)
  have ok: "iterations_succeed demo_simulation 0 [demo_summary 1, demo_summary 2]
      [''create_simulation_metadata'', ''build_large_network'']
      [''create_simulation_metadata'', ''build_large_network'',
       ''advance_time'', ''evolve_network'', ''advance_time'', ''evolve_network'']"
    by (simp add: demo_simulation_def demo_summary_def log_iteration_summary_def)
  have i: "length [demo_summary 1, demo_summary 2] < nat (iterations demo_simulation)"
    by (simp add: demo_simulation_def)
  have fail: "advance_time demo_simulation (blocks_per_iteration demo_simulation)
       (block_time demo_simulation)
       [''create_simulation_metadata'', ''build_large_network'',
        ''advance_time'', ''evolve_network'', ''advance_time'', ''evolve_network'']
     = (Inr False, [''create_simulation_metadata'', ''build_large_network'',
        ''advance_time'', ''evolve_network'', ''advance_time'', ''evolve_network'',
        ''advance_time''])"
    by (simp add: demo_simulation_def)
  let ?ss = "[demo_summary 1, demo_summary 2]"
  let ?G = "get_statistics demo_simulation (fst (snd (run demo_simulation ([], [])))) 9 250"
  note t = run_halts_at_failed_advance [OF start built ok i fail, of 9 250]
  from t have r: "run demo_simulation ([], []) =
     (False, ?ss,
      [''create_simulation_metadata'', ''build_large_network'',
       ''advance_time'', ''evolve_network'', ''advance_time'', ''evolve_network'',
       ''advance_time''])"
    by blast
  from t have "iterations_completed ?G = length ?ss"
    by blast
  then have n: "iterations_completed ?G = 2"
    by simp
  from t have "stat_total_actions ?G = sum_list (map (\<lambda>s. opt_get (total_actions s) 0) ?ss)"
    by blast
  also have "\<dots> = 6"
    by (simp add: demo_summary_def opt_get_def)
  finally have tot: "stat_total_actions ?G = 6" .
  from t have "stat_successful_actions ?G
      = sum_list (map (\<lambda>s. opt_get (successful_actions s) 0) ?ss)"
    by blast
  also have "\<dots> = 3"
    by (simp add: demo_summary_def opt_get_def)
  finally have suc: "stat_successful_actions ?G = 3" .
  from t have "stat_action_counts ?G
      = foldl (\<lambda>acc s. add_counts acc (opt_get (action_counts s) [])) Map.empty ?ss"
    by blast
  also have "\<dots> = [''mint'' \<mapsto> 3, ''trust'' \<mapsto> 3]"
    by (simp add: demo_summary_def opt_get_def add_counts_def dict_get_def fun_upd_twist)
  finally have cnt: "stat_action_counts ?G = [''mint'' \<mapsto> 3, ''trust'' \<mapsto> 3]" .
  from t have "dict_get (stat_action_counts ?G) ''mint'' 0
      = sum_list (map (\<lambda>s. sum_list (map snd (filter (\<lambda>kv. fst kv = ''mint'')
                               (opt_get (action_counts s) [])))) ?ss)"
    by blast
  also have "\<dots> = 3"
    by (simp add: demo_summary_def opt_get_def)
  finally have mint: "dict_get (stat_action_counts ?G) ''mint'' 0 = 3" .
  from t have "stat_network_size ?G = network_size demo_simulation"
    by blast
  then have size: "stat_network_size ?G = 20"
    by (simp add: demo_simulation_def)
  from t have head: "stat_current_block ?G = 250"
    by blast
  from t have "duration ?G = 9 - simulation_start_time demo_simulation"
    by blast
  then have dur: "duration ?G = 9"
    by (simp add: demo_simulation_def)
  from r n tot suc cnt mint size head dur show ?thesis
    by blast
qed

subsection \<open>C9: eligibility never raises\<close>

text \<open>
  C9. For every agent, action name, block and network state, \<open>can_perform_action\<close> of
  the agent returns a boolean and raises nothing. When the configuration lookup of the
  profile raises, and when the lookup finds a configuration and the predicate of the
  profile raises, the result is \<open>False\<close>.
\<close>

theorem can_perform_action_never_raises:
  "(\<exists>b. can_perform_action a action_name current_block network_state = Inr b)
   \<and> (\<forall>e. profile_get_action_config (profile a) action_name = Inl e
        \<longrightarrow> can_perform_action a action_name current_block network_state = Inr False)
   \<and> (\<forall>e cfg. profile_get_action_config (profile a) action_name = Inr (Some cfg)
          \<and> profile_can_perform_action (profile a) action_name current_block
               (dict_get (last_actions a) action_name 0) = Inl e
        \<longrightarrow> can_perform_action a action_name current_block network_state = Inr False)"
proof (intro conjI allI impI)
  show "\<exists>b. can_perform_action a action_name current_block network_state = Inr b"
    by (cases "can_perform_action_try a action_name current_block network_state")
       (auto simp: can_perform_action_def)
next
  fix e
  assume "profile_get_action_config (profile a) action_name = Inl e"
  then show "can_perform_action a action_name current_block network_state = Inr False"
    by (simp add: can_perform_action_def can_perform_action_try_def)
next
  fix e cfg
  assume "profile_get_action_config (profile a) action_name = Inr (Some cfg)
          \<and> profile_can_perform_action (profile a) action_name current_block
               (dict_get (last_actions a) action_name 0) = Inl e"
  then show "can_perform_action a action_name current_block network_state = Inr False"
    by (simp add: can_perform_action_def can_perform_action_try_def)
qed

theorem can_perform_action_never_raises_witness:
  "profile_get_action_config (profile lookup_raises_agent) ''mint'' = Inl KeyError
   \<and> can_perform_action lookup_raises_agent ''mint'' 30 () = Inr False
   \<and> profile_get_action_config (profile predicate_raises_agent) ''mint''
       = Inr (Some \<lparr> probability = 1 \<rparr>)
   \<and> profile_can_perform_action (profile predicate_raises_agent) ''mint'' 30
        (dict_get (last_actions predicate_raises_agent) ''mint'' 0) = Inl ValueError
   \<and> can_perform_action predicate_raises_agent ''mint'' 30 () = Inr False
   \<and> can_perform_action (demo_agent 2) ''mint'' 30 () = Inr True"
proof -
  have l: "profile_get_action_config (profile lookup_raises_agent) ''mint'' = Inl KeyError"
    by (simp add: lookup_raises_agent_def BaseAgent_init_def)
  have p: "profile_get_action_config (profile predicate_raises_agent) ''mint''
      = Inr (Some \<lparr> probability = 1 \<rparr>)"
    "profile_can_perform_action (profile predicate_raises_agent) ''mint'' 30
        (dict_get (last_actions predicate_raises_agent) ''mint'' 0) = Inl ValueError"
    by (simp_all add: predicate_raises_agent_def BaseAgent_init_def demo_profile_def)
  have t: "can_perform_action (demo_agent 2) ''mint'' 30 () = Inr True"
    by (simp add: can_perform_action_def can_perform_action_try_def demo_agent_def
        demo_profile_def BaseAgent_init_def)
  show ?thesis
    using l p t
      can_perform_action_never_raises [of lookup_raises_agent "''mint''" 30 "()"]
      can_perform_action_never_raises [of predicate_raises_agent "''mint''" 30 "()"]
    by simp
qed

subsection \<open>C10: filtering the balance history\<close>

text \<open>
  C10. \<open>get_balance_history\<close> filters by an argument only when it is true as a
  condition: with the empty string for the account or for the contract the result is
  the one without that argument, and with both left out or empty it is the whole
  history. Whatever the arguments, the result is a subsequence of the history: the
  records that are returned keep the order in which they were recorded.
\<close>

theorem get_balance_history_filters:
  "get_balance_history a (Some []) con = get_balance_history a None con
   \<and> get_balance_history a acct (Some []) = get_balance_history a acct None
   \<and> get_balance_history a (Some []) (Some []) = balances_history a
   \<and> get_balance_history a None None = balances_history a
   \<and> get_balance_history a acct con
       = filter (\<lambda>h. (str_truthy acct \<longrightarrow> Some (account h) = acct)
                    \<and> (str_truthy con \<longrightarrow> Some (contract h) = con)) (balances_history a)
   \<and> subseq (get_balance_history a acct con) (balances_history a)"
proof -
  have "subseq (filter P (filter Q xs)) xs" for P Q and xs :: "BalanceUpdate list"
    by (rule subseq_order.trans [OF subseq_filter_left subseq_filter_left])
  then show ?thesis
    by (simp add: get_balance_history_def str_truthy_def Let_def)
qed

theorem get_balance_history_filters_witness:
  "get_balance_history
     (update_balance (update_balance (update_balance (demo_agent 2)
        ''0xA'' ''gold'' 5 0 7) ''0xA'' ''silver'' 3 1 8) ''0xA'' ''gold'' 0 2 9)
     (Some []) (Some ''gold'')
   = [\<lparr> contract = ''gold'', account = ''0xA'', balance = 5, timestamp = 0, block = 7 \<rparr>,
      \<lparr> contract = ''gold'', account = ''0xA'', balance = 0, timestamp = 2, block = 9 \<rparr>]
   \<and> get_balance_history
     (update_balance (update_balance (update_balance (demo_agent 2)
        ''0xA'' ''gold'' 5 0 7) ''0xA'' ''silver'' 3 1 8) ''0xA'' ''gold'' 0 2 9)
     (Some []) (Some [])
   = [\<lparr> contract = ''gold'', account = ''0xA'', balance = 5, timestamp = 0, block = 7 \<rparr>,
      \<lparr> contract = ''silver'', account = ''0xA'', balance = 3, timestamp = 1, block = 8 \<rparr>,
      \<lparr> contract = ''gold'', account = ''0xA'', balance = 0, timestamp = 2, block = 9 \<rparr>]"
proof -
  let ?a = "update_balance (update_balance (update_balance (demo_agent 2)
        ''0xA'' ''gold'' 5 0 7) ''0xA'' ''silver'' 3 1 8) ''0xA'' ''gold'' 0 2 9"
  have hist: "balances_history ?a
   = [\<lparr> contract = ''gold'', account = ''0xA'', balance = 5, timestamp = 0, block = 7 \<rparr>,
      \<lparr> contract = ''silver'', account = ''0xA'', balance = 3, timestamp = 1, block = 8 \<rparr>,
      \<lparr> contract = ''gold'', account = ''0xA'', balance = 0, timestamp = 2, block = 9 \<rparr>]"
    by (simp add: demo_agent_def demo_profile_def BaseAgent_init_def get_accounts_def
        update_balance_def dict_get_def Let_def)
  show ?thesis
    using get_balance_history_filters [of ?a "Some ''gold''" None]
    by (simp add: hist get_balance_history_def str_truthy_def)
qed

end
